theory Spec2Isabelle
  imports Main
begin

section \<open>Python values and exceptions\<close>

text \<open>
  An exception of the Python source is a value of type \<open>error\<close>. An assertion failure
  carries the line of \<^verbatim>\<open>dehn_thurston_tt.py\<close> on which the \<^verbatim>\<open>assert\<close> stands.
\<close>

datatype error =
    KeyError
  | IndexError
  | ValueError
  | TypeError
  | NameError
  | ZeroDivisionError
  | AssertionError nat

definition bind_err :: "error + 'a \<Rightarrow> ('a \<Rightarrow> error + 'b) \<Rightarrow> error + 'b" where
  "bind_err r f = (case r of Inl e \<Rightarrow> Inl e | Inr v \<Rightarrow> f v)"

subsection \<open>Python lists\<close>

text \<open>
  Indexing counts a negative index from the end and raises \<open>IndexError\<close> out of range;
  a slice bound is clamped to the list instead.
\<close>

definition py_position :: "nat \<Rightarrow> int \<Rightarrow> nat option" where
  "py_position n i =
     (if 0 \<le> i \<and> i < int n then Some (nat i)
      else if i < 0 \<and> - int n \<le> i then Some (nat (int n + i))
      else None)"

definition py_get :: "'a list \<Rightarrow> int \<Rightarrow> error + 'a" where
  "py_get xs i =
     (case py_position (length xs) i of None \<Rightarrow> Inl IndexError | Some j \<Rightarrow> Inr (xs ! j))"

definition py_set :: "'a list \<Rightarrow> int \<Rightarrow> 'a \<Rightarrow> error + 'a list" where
  "py_set xs i v =
     (case py_position (length xs) i of None \<Rightarrow> Inl IndexError | Some j \<Rightarrow> Inr (xs[j := v]))"

definition py_pop :: "'a list \<Rightarrow> int \<Rightarrow> error + ('a \<times> 'a list)" where
  "py_pop xs i =
     (case py_position (length xs) i of None \<Rightarrow> Inl IndexError
      | Some j \<Rightarrow> Inr (xs ! j, take j xs @ drop (Suc j) xs))"

definition py_bound :: "'a list \<Rightarrow> int \<Rightarrow> nat" where
  "py_bound xs i =
     (let n = int (length xs) in
      if i < 0 then nat (max 0 (n + i)) else nat (min n i))"

definition py_insert :: "'a list \<Rightarrow> int \<Rightarrow> 'a \<Rightarrow> 'a list" where
  "py_insert xs i v = take (py_bound xs i) xs @ v # drop (py_bound xs i) xs"

text \<open>\<^verbatim>\<open>xs[i:]\<close>, \<^verbatim>\<open>xs[:j]\<close>, \<^verbatim>\<open>xs[i:i] = ys\<close>, \<^verbatim>\<open>del xs[i:]\<close> and \<^verbatim>\<open>del xs[:j]\<close>.\<close>

definition py_slice_from :: "'a list \<Rightarrow> int \<Rightarrow> 'a list" where
  "py_slice_from xs i = drop (py_bound xs i) xs"

definition py_slice_to :: "'a list \<Rightarrow> int \<Rightarrow> 'a list" where
  "py_slice_to xs j = take (py_bound xs j) xs"

definition py_splice :: "'a list \<Rightarrow> int \<Rightarrow> 'a list \<Rightarrow> 'a list" where
  "py_splice xs i ys = take (py_bound xs i) xs @ ys @ drop (py_bound xs i) xs"

definition py_del_from :: "'a list \<Rightarrow> int \<Rightarrow> 'a list" where
  "py_del_from xs i = take (py_bound xs i) xs"

definition py_del_to :: "'a list \<Rightarrow> int \<Rightarrow> 'a list" where
  "py_del_to xs j = drop (py_bound xs j) xs"

fun py_index :: "'a list \<Rightarrow> 'a \<Rightarrow> error + int" where
  "py_index [] v = Inl ValueError"
| "py_index (x # xs) v =
     (if x = v then Inr 0
      else (case py_index xs v of Inl e \<Rightarrow> Inl e | Inr k \<Rightarrow> Inr (k + 1)))"

section \<open>BranchMap\<close>

text \<open>
  \<^verbatim>\<open>self._branch_map\<close> is a dictionary from the unsigned label of a branch to the list of
  signed labels recorded for it.
\<close>

type_synonym BranchMap = "int \<rightharpoonup> int list"

definition BranchMap_init :: "int list \<Rightarrow> BranchMap" where
  "BranchMap_init branches = map_of (map (\<lambda>b. (\<bar>b\<bar>, [\<bar>b\<bar>])) branches)"

definition branch_list :: "BranchMap \<Rightarrow> int \<Rightarrow> error + int list" where
  "branch_list bm branch =
     (if branch > 0 then
        (case bm branch of None \<Rightarrow> Inl KeyError | Some l \<Rightarrow> Inr l)
      else
        (case bm (- branch) of None \<Rightarrow> Inl KeyError
         | Some l \<Rightarrow> Inr (rev (map uminus l))))"

definition append_bm :: "BranchMap \<Rightarrow> int \<Rightarrow> int \<Rightarrow> error + BranchMap" where
  "append_bm bm append_to appended_branch =
     (if append_to > 0 then
        (case bm append_to of None \<Rightarrow> Inl KeyError
         | Some l \<Rightarrow>
            (case branch_list bm appended_branch of Inl e \<Rightarrow> Inl e
             | Inr l2 \<Rightarrow> Inr (bm(append_to \<mapsto> l @ l2))))
      else
        (case branch_list bm (- appended_branch) of Inl e \<Rightarrow> Inl e
         | Inr l2 \<Rightarrow>
            (case bm (- append_to) of None \<Rightarrow> Inl KeyError
             | Some l \<Rightarrow> Inr (bm(- append_to \<mapsto> l2 @ l)))))"

text \<open>
  The branch maps a caller can hold: the one the constructor builds from a list of
  branches, and every one that a successful \<^verbatim>\<open>append\<close> call leaves behind.
\<close>

inductive reachable_bm :: "BranchMap \<Rightarrow> bool" where
  init: "reachable_bm (BranchMap_init branches)"
| step: "reachable_bm bm \<Longrightarrow> append_bm bm t o' = Inr bm' \<Longrightarrow> reachable_bm bm'"

section \<open>The adjacency model\<close>

text \<open>
  \<^verbatim>\<open>LEFT = 0\<close>, \<^verbatim>\<open>RIGHT = 1\<close> and \<^verbatim>\<open>UP = 0\<close>, \<^verbatim>\<open>TWO_SIDED = 1\<close> are the two enumerations of
  the source; \<open>other_side\<close> is its \<^verbatim>\<open>(start_side+1)%2\<close>.
\<close>

datatype side = LEFT | RIGHT

datatype collapse = UP | TWO_SIDED

fun other_side :: "side \<Rightarrow> side" where
  "other_side LEFT = RIGHT"
| "other_side RIGHT = LEFT"

text \<open>
  The state of a \<^verbatim>\<open>DehnThurstonTT\<close> object, as the doctests of the source print it:
  \<^verbatim>\<open>_gluing_list\<close> holds the outgoing branches of the switches \<open>1, -1, 2, -2, \<dots>\<close> in this
  order, \<^verbatim>\<open>_branch_endpoint\<close> holds for every branch label the switch at which the branch
  starts and the switch at which its reverse starts, and \<^verbatim>\<open>_measure\<close> is the measure of
  every branch label, or \<^verbatim>\<open>None\<close> for a train track without measure.
\<close>

record train_track =
  gluing_list :: "int list list"
  branch_endpoint_table :: "int list \<times> int list"
  measure_table :: "int list option"

subsection \<open>Operations of the base class\<close>

text \<open>
  The class \<^verbatim>\<open>TrainTrack\<close> (module \<^verbatim>\<open>train_track\<close>) is not part of the source file. Its
  operations follow the data model of the specification (two ordered lists of outgoing
  branches per switch, position 0 of a side next to that side, an endpoint for each
  direction of a branch, a measure shared by both directions) and the states that the
  doctests of the source file show before and after each call.
\<close>

text \<open>
  Modelled from the spec: the place of the outgoing branches of a signed switch in
  \<^verbatim>\<open>_gluing_list\<close>, which lists the switches as \<open>1, -1, 2, -2, \<dots>\<close>.
\<close>

definition gluing_index :: "int \<Rightarrow> int" where
  "gluing_index switch = (if switch > 0 then 2 * switch - 2 else - 2 * switch - 1)"

text \<open>
  Modelled from the spec: \<^verbatim>\<open>outgoing_branches(switch)\<close> of the base class, the ordered list
  of the outgoing branches of a signed switch.
\<close>

definition outgoing_branches :: "train_track \<Rightarrow> int \<Rightarrow> error + int list" where
  "outgoing_branches tt switch =
     (if switch = 0 \<or> gluing_index switch \<ge> int (length (gluing_list tt)) then Inl IndexError
      else Inr (gluing_list tt ! nat (gluing_index switch)))"

text \<open>
  Modelled from the spec: \<^verbatim>\<open>outgoing_branches\<close> returns the list object that the train track
  stores, and the source changes that object in place; \<open>set_outgoing_branches\<close> writes the
  changed list back.
\<close>

definition set_outgoing_branches :: "train_track \<Rightarrow> int \<Rightarrow> int list \<Rightarrow> train_track" where
  "set_outgoing_branches tt switch xs =
     tt\<lparr>gluing_list := (gluing_list tt)[nat (gluing_index switch) := xs]\<rparr>"

text \<open>
  Modelled from the spec: \<^verbatim>\<open>outgoing_branch(switch, pos, start_side)\<close> of the base class,
  the outgoing branch at the 0-based position \<open>pos\<close> counted from \<open>start_side\<close>.
\<close>

definition outgoing_branch :: "train_track \<Rightarrow> int \<Rightarrow> int \<Rightarrow> side \<Rightarrow> error + int" where
  "outgoing_branch tt switch pos start_side =
     bind_err (outgoing_branches tt switch)
       (\<lambda>xs. py_get xs (if start_side = LEFT then pos else - 1 - pos))"

text \<open>
  Modelled from the spec: \<^verbatim>\<open>outgoing_branch_index(switch, branch, start_side)\<close> of the base
  class, the position of a branch among the outgoing branches, counted from \<open>start_side\<close>.
\<close>

definition outgoing_branch_index :: "train_track \<Rightarrow> int \<Rightarrow> int \<Rightarrow> side \<Rightarrow> error + int" where
  "outgoing_branch_index tt switch branch start_side =
     bind_err (outgoing_branches tt switch) (\<lambda>xs.
     bind_err (py_index xs branch) (\<lambda>k.
     Inr (if start_side = LEFT then k else int (length xs) - 1 - k)))"

text \<open>
  Modelled from the spec: \<^verbatim>\<open>branch_endpoint(branch)\<close> of the base class, the switch that the
  branch points into: the signed switch from which the reversed branch goes out.
\<close>

definition branch_endpoint :: "train_track \<Rightarrow> int \<Rightarrow> error + int" where
  "branch_endpoint tt branch =
     (if branch > 0 then py_get (snd (branch_endpoint_table tt)) (branch - 1)
      else if branch < 0 then py_get (fst (branch_endpoint_table tt)) (- branch - 1)
      else Inl IndexError)"

text \<open>Modelled from the spec: \<^verbatim>\<open>_set_endpoint(branch, switch)\<close> of the base class.\<close>

definition set_endpoint :: "train_track \<Rightarrow> int \<Rightarrow> int \<Rightarrow> error + train_track" where
  "set_endpoint tt branch switch =
     (if branch > 0 then
        bind_err (py_set (snd (branch_endpoint_table tt)) (branch - 1) switch) (\<lambda>ends.
        Inr (tt\<lparr>branch_endpoint_table := (fst (branch_endpoint_table tt), ends)\<rparr>))
      else if branch < 0 then
        bind_err (py_set (fst (branch_endpoint_table tt)) (- branch - 1) switch) (\<lambda>starts.
        Inr (tt\<lparr>branch_endpoint_table := (starts, snd (branch_endpoint_table tt))\<rparr>))
      else Inl IndexError)"

text \<open>Modelled from the spec: \<^verbatim>\<open>is_measured()\<close> of the base class.\<close>

definition is_measured :: "train_track \<Rightarrow> bool" where
  "is_measured tt = (measure_table tt \<noteq> None)"

text \<open>
  Modelled from the spec: the measure of a branch, which its two directions share; a
  train track without measure has none to read.
\<close>

definition branch_measure :: "train_track \<Rightarrow> int \<Rightarrow> error + int" where
  "branch_measure tt branch =
     (case measure_table tt of None \<Rightarrow> Inl TypeError
      | Some ms \<Rightarrow> if branch = 0 then Inl IndexError else py_get ms (\<bar>branch\<bar> - 1))"

text \<open>Modelled from the spec: \<^verbatim>\<open>_set_measure(branch, value)\<close> of the base class.\<close>

definition set_measure :: "train_track \<Rightarrow> int \<Rightarrow> int \<Rightarrow> error + train_track" where
  "set_measure tt branch v =
     (case measure_table tt of None \<Rightarrow> Inl TypeError
      | Some ms \<Rightarrow>
          if branch = 0 then Inl IndexError
          else bind_err (py_set ms (\<bar>branch\<bar> - 1) v) (\<lambda>ms'.
               Inr (tt\<lparr>measure_table := Some ms'\<rparr>)))"

text \<open>
  Modelled from the spec: the constructor of the base class, which is given the gluing
  list (the outgoing branches of the switches \<open>1, -1, 2, -2, \<dots>\<close>) and an optional list
  of measures, and records for every branch the switch at which it starts. The labels
  of the branches need not be consecutive (lines 859 to 871), so the table reaches to the
  largest one; a label that no branch has is recorded with 0, which is no switch.
\<close>

fun largest_label :: "nat \<Rightarrow> int list \<Rightarrow> nat" where
  "largest_label m [] = m"
| "largest_label m (b # bs) = largest_label (if m < nat \<bar>b\<bar> then nat \<bar>b\<bar> else m) bs"

fun starts_of :: "int list list \<Rightarrow> int \<Rightarrow> int \<Rightarrow> int" where
  "starts_of [] k b = 0"
| "starts_of (xs # xss) k b =
     (if b \<in> set xs then (if even k then k div 2 + 1 else - (k div 2 + 1))
      else starts_of xss (k + 1) b)"

definition DehnThurstonTT :: "int list list \<Rightarrow> int list option \<Rightarrow> train_track" where
  "DehnThurstonTT gl ms =
     (let n = largest_label 0 (concat gl) in
      \<lparr>gluing_list = gl,
       branch_endpoint_table =
         (map (\<lambda>b. starts_of gl 0 (int b)) [1..<Suc n],
          map (\<lambda>b. starts_of gl 0 (- int b)) [1..<Suc n]),
       measure_table = ms\<rparr>)"

text \<open>A \<^verbatim>\<open>for\<close> loop over a list, and one over \<^verbatim>\<open>range(n)\<close>, stop at the first exception.\<close>

fun for_each :: "('a \<Rightarrow> 's \<Rightarrow> error + 's) \<Rightarrow> 'a list \<Rightarrow> 's \<Rightarrow> error + 's" where
  "for_each f [] s = Inr s"
| "for_each f (x # xs) s = (case f x s of Inl e \<Rightarrow> Inl e | Inr s' \<Rightarrow> for_each f xs s')"

fun for_range :: "nat \<Rightarrow> ('s \<Rightarrow> error + 's) \<Rightarrow> 's \<Rightarrow> error + 's" where
  "for_range 0 f s = Inr s"
| "for_range (Suc n) f s = (case f s of Inl e \<Rightarrow> Inl e | Inr s' \<Rightarrow> for_range n f s')"

fun measures_of :: "train_track \<Rightarrow> int list \<Rightarrow> error + int" where
  "measures_of tt [] = Inr 0"
| "measures_of tt (b # bs) =
     (case branch_measure tt b of Inl e \<Rightarrow> Inl e
      | Inr m \<Rightarrow> (case measures_of tt bs of Inl e \<Rightarrow> Inl e | Inr s \<Rightarrow> Inr (m + s)))"

text \<open>
  Modelled from the spec: \<^verbatim>\<open>unzip_pos(switch, pos, start_side)\<close> of the base class. The cut
  carries the measure \<open>s\<close> of the branches at the positions \<open>0, \<dots>, pos\<close> of \<open>switch\<close>,
  counted from \<open>start_side\<close>, and travels over the branches of \<open>-switch\<close>, counted from the
  other side, until their accumulated measure exceeds \<open>s\<close>. The result is the position
  of the branch in which it stops, the part \<open>meas1\<close> of \<open>s\<close> that reaches that branch and the
  rest \<open>meas2\<close> of that branch.

  The specification describes this helper for a train track with a measure and a position
  \<open>pos \<ge> 0\<close>, and there the doctests of the source file fix its values. Outside it the
  model is one reading among others: at \<open>pos = -1\<close> the cut carries the empty sum 0 and
  stops in the first branch of positive measure, with the result \<open>(0, 0, m)\<close>; on a train
  track without measure there is no measure to read and the result is \<open>TypeError\<close>. The
  lemmas below that depend on one of these two readings say so.
\<close>

fun unzip_scan :: "train_track \<Rightarrow> int \<Rightarrow> int \<Rightarrow> int \<Rightarrow> int list \<Rightarrow> error + (int \<times> int \<times> int)" where
  "unzip_scan tt s i acc [] = Inl IndexError"
| "unzip_scan tt s i acc (b # bs) =
     (case branch_measure tt b of Inl e \<Rightarrow> Inl e
      | Inr m \<Rightarrow>
          if acc + m > s then Inr (i, s - acc, acc + m - s)
          else unzip_scan tt s (i + 1) (acc + m) bs)"

definition TrainTrack_unzip_pos :: "train_track \<Rightarrow> int \<Rightarrow> int \<Rightarrow> side \<Rightarrow> error + (int \<times> int \<times> int)" where
  "TrainTrack_unzip_pos tt switch pos start_side =
     bind_err (outgoing_branches tt switch) (\<lambda>top.
     bind_err (outgoing_branches tt (- switch)) (\<lambda>bottom.
     bind_err (measures_of tt
         (py_slice_to (if start_side = LEFT then top else rev top) (pos + 1))) (\<lambda>s.
     unzip_scan tt s 0 0 (if start_side = LEFT then rev bottom else bottom))))"

text \<open>
  Modelled from the spec: \<^verbatim>\<open>fold(switch, from_index, to_index, start_side)\<close> of the base
  class merges the outgoing branch at \<open>from_index\<close> into its neighbour at \<open>to_index\<close>: the
  folded branch leaves \<open>switch\<close>, runs along the other branch to its endpoint and starts
  there on the far side of that switch, outermost on the side it was folded from; the
  branch it was folded onto gains its measure.
\<close>

definition TrainTrack_fold :: "train_track \<Rightarrow> int \<Rightarrow> int \<Rightarrow> int \<Rightarrow> side \<Rightarrow> error + train_track" where
  "TrainTrack_fold tt switch folded_branch_index fold_onto_index start_side =
     bind_err (outgoing_branches tt switch) (\<lambda>out.
     let n = int (length out);
         fi = (if start_side = LEFT then folded_branch_index else n - 1 - folded_branch_index);
         oi = (if start_side = LEFT then fold_onto_index else n - 1 - fold_onto_index)
     in if \<not> (0 \<le> fi \<and> fi < n \<and> 0 \<le> oi \<and> oi < n) then Inl IndexError
        else if \<bar>fi - oi\<bar> \<noteq> 1 then Inl ValueError
        else
          let folded = out ! nat fi; onto = out ! nat oi in
          bind_err (branch_endpoint tt onto) (\<lambda>next_switch.
          let tt1 = set_outgoing_branches tt switch (take (nat fi) out @ drop (Suc (nat fi)) out) in
          bind_err (outgoing_branches tt1 (- next_switch)) (\<lambda>dst.
          let tt2 = set_outgoing_branches tt1 (- next_switch)
                      (if fi < oi then folded # dst else dst @ [folded]) in
          bind_err (set_endpoint tt2 (- folded) (- next_switch)) (\<lambda>tt3.
          if is_measured tt3 then
            bind_err (branch_measure tt3 folded) (\<lambda>mf.
            bind_err (branch_measure tt3 onto) (\<lambda>mo.
            set_measure tt3 onto (mo + mf)))
          else Inr tt3))))"

text \<open>
  Modelled from the spec: \<^verbatim>\<open>change_switch_orientation(switch)\<close> of the base class exchanges
  the two lists of outgoing branches of the switch and records the new starting switch
  of each of their branches.
\<close>

definition change_switch_orientation :: "train_track \<Rightarrow> int \<Rightarrow> error + train_track" where
  "change_switch_orientation tt switch =
     bind_err (outgoing_branches tt switch) (\<lambda>pos_side.
     bind_err (outgoing_branches tt (- switch)) (\<lambda>neg_side.
     let tt1 = set_outgoing_branches (set_outgoing_branches tt switch neg_side) (- switch) pos_side in
     bind_err (for_each (\<lambda>b t. set_endpoint t (- b) (- switch)) pos_side tt1) (\<lambda>tt2.
     for_each (\<lambda>b t. set_endpoint t (- b) switch) neg_side tt2)))"

section \<open>Classification queries\<close>

definition get_turning :: "train_track \<Rightarrow> int \<Rightarrow> error + side" where
  "get_turning tt switch =
     bind_err (outgoing_branch tt switch 0 LEFT) (\<lambda>l1.
     bind_err (outgoing_branch tt (- switch) 0 LEFT) (\<lambda>l2.
     if l1 = - l2 then Inr LEFT
     else
       bind_err (outgoing_branch tt switch 0 RIGHT) (\<lambda>r1.
       bind_err (outgoing_branch tt (- switch) 0 RIGHT) (\<lambda>r2.
       if r1 = - r2 then Inr RIGHT else Inl (AssertionError 129)))))"

text \<open>
  The two nested loops of \<^verbatim>\<open>elem_move_type\<close>: the inner one says whether some outgoing
  branch of \<open>-pants_curve\<close> ends at \<open>sw1\<close>, the outer one runs over the outgoing branches of
  \<open>pants_curve\<close> and skips those that end at the switch of the pants curve.
\<close>

fun elem_move_type_inner :: "train_track \<Rightarrow> int \<Rightarrow> int list \<Rightarrow> error + bool" where
  "elem_move_type_inner tt sw1 [] = Inr False"
| "elem_move_type_inner tt sw1 (j # js) =
     (case branch_endpoint tt j of Inl e \<Rightarrow> Inl e
      | Inr sw2 \<Rightarrow> if sw1 = sw2 then Inr True else elem_move_type_inner tt sw1 js)"

fun elem_move_type_outer :: "train_track \<Rightarrow> int \<Rightarrow> int list \<Rightarrow> error + int" where
  "elem_move_type_outer tt pants_curve [] = Inr 2"
| "elem_move_type_outer tt pants_curve (i # bs) =
     (case branch_endpoint tt i of Inl e \<Rightarrow> Inl e
      | Inr sw1 \<Rightarrow>
          if \<bar>sw1\<bar> = \<bar>pants_curve\<bar> then elem_move_type_outer tt pants_curve bs
          else
            (case outgoing_branches tt (- pants_curve) of Inl e \<Rightarrow> Inl e
             | Inr js \<Rightarrow>
                 (case elem_move_type_inner tt sw1 js of Inl e \<Rightarrow> Inl e
                  | Inr found \<Rightarrow>
                      if found then Inr 1 else elem_move_type_outer tt pants_curve bs)))"

definition elem_move_type :: "train_track \<Rightarrow> int \<Rightarrow> error + int" where
  "elem_move_type tt pants_curve =
     bind_err (outgoing_branches tt pants_curve) (elem_move_type_outer tt pants_curve)"

text \<open>
  The loop of \<^verbatim>\<open>torus_boundary_switch\<close> leaves in \<open>new_switch\<close> the endpoint at which it
  breaks, or the last one it has seen; the name is unbound when there is no branch.
\<close>

fun torus_boundary_loop :: "train_track \<Rightarrow> int \<Rightarrow> int list \<Rightarrow> int option \<Rightarrow> error + int" where
  "torus_boundary_loop tt switch [] new_switch =
     (case new_switch of None \<Rightarrow> Inl NameError | Some sw \<Rightarrow> Inr sw)"
| "torus_boundary_loop tt switch (b # bs) new_switch =
     (case branch_endpoint tt b of Inl e \<Rightarrow> Inl e
      | Inr sw \<Rightarrow>
          if \<bar>sw\<bar> \<noteq> \<bar>switch\<bar> then Inr sw
          else torus_boundary_loop tt switch bs (Some sw))"

definition torus_boundary_switch :: "train_track \<Rightarrow> int \<Rightarrow> error + int" where
  "torus_boundary_switch tt switch =
     bind_err (elem_move_type tt switch) (\<lambda>ty.
     if ty \<noteq> 1 then Inl (AssertionError 153)
     else
       bind_err (outgoing_branches tt switch) (\<lambda>bs.
       bind_err (torus_boundary_loop tt switch bs None) (\<lambda>new_switch.
       bind_err (get_turning tt new_switch) (\<lambda>turning.
       if turning = LEFT then Inr (- new_switch) else Inr new_switch))))"

definition orientation_of_switch_first_move :: "train_track \<Rightarrow> int \<Rightarrow> error + int" where
  "orientation_of_switch_first_move tt switch =
     bind_err (elem_move_type tt switch) (\<lambda>ty.
     if ty \<noteq> 1 then Inl (AssertionError 168)
     else
       bind_err (torus_boundary_switch tt switch) (\<lambda>bdy_switch.
       bind_err (get_turning tt bdy_switch) (\<lambda>turning.
       bind_err (if turning = RIGHT then outgoing_branch tt bdy_switch 0 LEFT
                 else outgoing_branch tt (- bdy_switch) 1 LEFT) (\<lambda>b.
       bind_err (branch_endpoint tt b) (\<lambda>sw.
       bind_err (get_turning tt switch) (\<lambda>t.
       if t = LEFT then Inr sw else Inr (- sw)))))))"

definition num_curves_on_sides :: "train_track \<Rightarrow> int \<Rightarrow> error + (int \<times> int)" where
  "num_curves_on_sides tt pants_curve =
     (let switch = pants_curve in
      bind_err (outgoing_branches tt switch) (\<lambda>top_branches.
      bind_err (outgoing_branches tt (- switch)) (\<lambda>bottom_branches.
      let ntop = int (length top_branches); nbottom = int (length bottom_branches) in
      bind_err (get_turning tt pants_curve) (\<lambda>turning.
      Inr (if turning = LEFT then (nbottom - 1, ntop - 1) else (ntop - 1, nbottom - 1))))))"

definition pants_branch_on_switch :: "train_track \<Rightarrow> int \<Rightarrow> error + int" where
  "pants_branch_on_switch tt switch =
     bind_err (outgoing_branch tt switch 0 LEFT) (\<lambda>b1.
     bind_err (outgoing_branch tt (- switch) 0 LEFT) (\<lambda>b2.
     if b1 = - b2 then Inr \<bar>b1\<bar>
     else
       bind_err (outgoing_branch tt switch 0 RIGHT) (\<lambda>c1.
       bind_err (outgoing_branch tt (- switch) 0 RIGHT) (\<lambda>c2.
       if c1 = - c2 then Inr \<bar>c1\<bar> else Inl (AssertionError 879)))))"

section \<open>The unzip and collapse engine\<close>

text \<open>
  The part of \<^verbatim>\<open>unzip_with_collapse_no_measure\<close> for \<^verbatim>\<open>collapse_type == UP\<close> that follows
  the computation of \<open>unzip_branch\<close> and \<open>bottom_switch\<close> (lines 462 to 514).
\<close>

definition no_measure_UP ::
  "train_track \<Rightarrow> int \<Rightarrow> int \<Rightarrow> BranchMap option \<Rightarrow> side \<Rightarrow> int \<Rightarrow> int
     \<Rightarrow> error + (train_track \<times> BranchMap option)" where
  "no_measure_UP tt switch unzip_pos branch_map start_side unzip_branch bottom_switch =
     bind_err (outgoing_branches tt switch) (\<lambda>top.
     bind_err (py_pop top (if start_side = LEFT then 0 else - 1)) (\<lambda>(collapsed_branch, top').
     let tt1 = set_outgoing_branches tt switch top' in
     bind_err (outgoing_branches tt1 bottom_switch) (\<lambda>bs.
     bind_err (py_index bs (- unzip_branch)) (\<lambda>end_index.
     if collapsed_branch = - unzip_branch then Inl (AssertionError 476)
     else
       let insert_pos = (if start_side = LEFT then end_index else end_index + 1);
           tt2 = set_outgoing_branches tt1 bottom_switch (py_insert bs insert_pos collapsed_branch)
       in
       bind_err (outgoing_branches tt2 (- switch)) (\<lambda>bottom_branches.
       let n = int (length bottom_branches);
           branches_to_move =
             (if start_side = LEFT then py_slice_from bottom_branches (n - unzip_pos)
              else py_slice_to bottom_branches unzip_pos);
           tt3 = set_outgoing_branches tt2 (- switch)
             (if start_side = LEFT then py_del_from bottom_branches (n - unzip_pos)
              else py_del_to bottom_branches unzip_pos)
       in
       bind_err (branch_endpoint tt3 collapsed_branch) (\<lambda>top_switch.
       bind_err (outgoing_branches tt3 top_switch) (\<lambda>ts.
       bind_err (py_index ts (- collapsed_branch)) (\<lambda>k.
       let insert_pos = (if start_side = LEFT then k + 1 else k);
           tt4 = set_outgoing_branches tt3 top_switch (py_splice ts insert_pos branches_to_move)
       in
       bind_err (set_endpoint tt4 (- collapsed_branch) bottom_switch) (\<lambda>tt5.
       bind_err (for_each (\<lambda>branch t. set_endpoint t (- branch) top_switch)
                   branches_to_move tt5) (\<lambda>tt6.
       case branch_map of
         None \<Rightarrow> Inr (tt6, None)
       | Some bm \<Rightarrow>
           bind_err (for_each (\<lambda>branch m. append_bm m (- branch) collapsed_branch)
                       branches_to_move bm) (\<lambda>bm1.
           bind_err (append_bm bm1 (- collapsed_branch) unzip_branch) (\<lambda>bm2.
           Inr (tt6, Some bm2)))))))))))))"

text \<open>
  The rotation of the outgoing branches \<open>top\<close> of \<open>switch\<close> for
  \<^verbatim>\<open>collapse_type == TWO_SIDED\<close> (lines 521 to 530): the \<open>pos + 1\<close> branches next to
  \<open>start_side\<close> move to the other end of the list, before the pants branch.
\<close>

definition rotate_top :: "side \<Rightarrow> int \<Rightarrow> int list \<Rightarrow> int list" where
  "rotate_top start_side pos top' =
     (let n = int (length top') in
      if start_side = LEFT then
        py_del_to (py_splice top' (- 1) (py_slice_to top' (pos + 1))) (- n)
      else
        py_del_from (py_splice top' 1 (py_slice_from top' (- pos - 1))) n)"

text \<open>The part for \<^verbatim>\<open>collapse_type == TWO_SIDED\<close> (line 470 and lines 518 to 559).\<close>

definition no_measure_TWO_SIDED ::
  "train_track \<Rightarrow> int \<Rightarrow> int \<Rightarrow> int \<Rightarrow> side \<Rightarrow> int \<Rightarrow> int \<Rightarrow> error + train_track" where
  "no_measure_TWO_SIDED tt switch pos unzip_pos start_side unzip_branch bottom_switch =
     bind_err (outgoing_branches tt bottom_switch) (\<lambda>bs0.
     bind_err (py_index bs0 (- unzip_branch)) (\<lambda>end_index.
     bind_err (outgoing_branches tt switch) (\<lambda>top.
     let tt1 = set_outgoing_branches tt switch (rotate_top start_side pos top) in
     if unzip_pos > 0 then
       let pop_pos = (if start_side = LEFT then - 1 else 0) in
       bind_err (outgoing_branches tt1 switch) (\<lambda>top1.
       bind_err (py_pop top1 pop_pos) (\<lambda>(collapsed_branch, top2).
       let tt2 = set_outgoing_branches tt1 switch top2 in
       bind_err (outgoing_branches tt2 (- switch)) (\<lambda>bottom0.
       bind_err (py_pop bottom0 pop_pos) (\<lambda>(popped, bottom).
       let m = int (length bottom);
           tt3 = set_outgoing_branches tt2 (- switch)
             (if start_side = LEFT then
                py_insert
                  (py_del_from (py_splice bottom 0 (py_slice_from bottom (m + 1 - unzip_pos))) m)
                  0 collapsed_branch
              else
                py_del_to (bottom @ py_slice_to bottom (unzip_pos - 1)) (- m)
                  @ [collapsed_branch])
       in
       bind_err (outgoing_branches tt3 bottom_switch) (\<lambda>bs.
       bind_err (py_index bs (- unzip_branch)) (\<lambda>k.
       let insert_pos = (if start_side = LEFT then k else k + 1);
           tt4 = set_outgoing_branches tt3 bottom_switch
                   (py_insert bs insert_pos (- collapsed_branch))
       in
       bind_err (set_endpoint tt4 (- collapsed_branch) (- switch)) (\<lambda>tt5.
       set_endpoint tt5 collapsed_branch bottom_switch)))))))
     else Inr tt1)))"

definition unzip_with_collapse_no_measure ::
  "train_track \<Rightarrow> int \<Rightarrow> int \<Rightarrow> int \<Rightarrow> collapse \<Rightarrow> BranchMap option \<Rightarrow> side
     \<Rightarrow> error + (train_track \<times> BranchMap option)" where
  "unzip_with_collapse_no_measure tt switch pos unzip_pos collapse_type branch_map start_side =
     bind_err
       (case collapse_type of
          UP \<Rightarrow> if pos = 0 then Inr () else Inl (AssertionError 439)
        | TWO_SIDED \<Rightarrow>
            let pants_branch_pos = (if start_side = RIGHT then 0 else - 1) in
            bind_err (outgoing_branches tt switch) (\<lambda>top.
            bind_err (py_get top pants_branch_pos) (\<lambda>a.
            bind_err (outgoing_branches tt (- switch)) (\<lambda>bottom.
            bind_err (py_get bottom pants_branch_pos) (\<lambda>b.
            if a = - b then Inr () else Inl (AssertionError 442))))))
       (\<lambda>_.
     bind_err (outgoing_branch tt (- switch) unzip_pos (other_side start_side)) (\<lambda>unzip_branch.
     bind_err (branch_endpoint tt unzip_branch) (\<lambda>bottom_switch.
     case collapse_type of
       UP \<Rightarrow> no_measure_UP tt switch unzip_pos branch_map start_side unzip_branch bottom_switch
     | TWO_SIDED \<Rightarrow>
         bind_err (no_measure_TWO_SIDED tt switch pos unzip_pos start_side
                     unzip_branch bottom_switch) (\<lambda>tt'.
         Inr (tt', branch_map)))))"

text \<open>
  \<^verbatim>\<open>unzip_with_collapse\<close> returns the changed train track, the changed branch map and the
  value of its \<^verbatim>\<open>return\<close> statement: \<open>None\<close> for the bare \<^verbatim>\<open>return\<close> of line 307. Its
  first step, line 285, calls \<^verbatim>\<open>unzip_pos\<close> of the base class, which is not part of the
  source file: \<open>unzip_with_collapse_via\<close> is the method with that helper as its first
  argument, and \<open>unzip_with_collapse\<close> is the method with the helper as it is modelled above.
\<close>

definition unzip_with_collapse_via ::
  "(train_track \<Rightarrow> int \<Rightarrow> int \<Rightarrow> side \<Rightarrow> error + (int \<times> int \<times> int))
     \<Rightarrow> train_track \<Rightarrow> int \<Rightarrow> int \<Rightarrow> collapse \<Rightarrow> BranchMap option \<Rightarrow> side
     \<Rightarrow> error + (train_track \<times> BranchMap option \<times> int option)" where
  "unzip_with_collapse_via base_unzip_pos tt switch pos collapse_type branch_map start_side =
     bind_err (base_unzip_pos tt switch pos start_side) (\<lambda>(unzip_pos, meas1, meas2).
     bind_err (outgoing_branch tt (- switch) unzip_pos (other_side start_side)) (\<lambda>unzip_br.
     case collapse_type of
       UP \<Rightarrow>
         bind_err (outgoing_branch tt switch 0 start_side) (\<lambda>collapsed_branch.
         bind_err (unzip_with_collapse_no_measure tt switch pos unzip_pos collapse_type
                     branch_map start_side) (\<lambda>(tt1, bm1).
         if \<not> is_measured tt1 then Inr (tt1, bm1, None)
         else
           bind_err (set_measure tt1 unzip_br meas2) (\<lambda>tt2.
           bind_err (set_measure tt2 collapsed_branch meas1) (\<lambda>tt3.
           Inr (tt3, bm1, Some unzip_pos)))))
     | TWO_SIDED \<Rightarrow>
         bind_err (outgoing_branch tt switch 0 (other_side start_side)) (\<lambda>pants_branch.
         bind_err (unzip_with_collapse_no_measure tt switch pos unzip_pos collapse_type
                     branch_map start_side) (\<lambda>(tt1, bm1).
         if \<not> is_measured tt1 then Inr (tt1, bm1, None)
         else if unzip_pos = 0 then
           bind_err (set_measure tt1 pants_branch meas2) (\<lambda>tt2.
           Inr (tt2, bm1, Some unzip_pos))
         else
           bind_err (set_measure tt1 unzip_br meas2) (\<lambda>tt2.
           bind_err (set_measure tt2 pants_branch meas1) (\<lambda>tt3.
           Inr (tt3, bm1, Some unzip_pos)))))))"

definition unzip_with_collapse ::
  "train_track \<Rightarrow> int \<Rightarrow> int \<Rightarrow> collapse \<Rightarrow> BranchMap option \<Rightarrow> side
     \<Rightarrow> error + (train_track \<times> BranchMap option \<times> int option)" where
  "unzip_with_collapse tt switch pos collapse_type branch_map start_side =
     unzip_with_collapse_via TrainTrack_unzip_pos tt switch pos collapse_type branch_map start_side"

section \<open>The twist engine\<close>

text \<open>
  A call that may run forever has a result of type \<open>(error + 'a) option\<close>: \<open>None\<close> when it
  does not return, \<open>Some (Inl e)\<close> when it raises and \<open>Some (Inr v)\<close> when it returns.
\<close>

definition bind_run :: "(error + 'a) option \<Rightarrow> ('a \<Rightarrow> (error + 'b) option) \<Rightarrow> (error + 'b) option" where
  "bind_run r f = (case r of None \<Rightarrow> None | Some (Inl e) \<Rightarrow> Some (Inl e) | Some (Inr v) \<Rightarrow> f v)"

text \<open>
  The branch of the twist loop for an unzip that does not end in the pants branch
  (lines 721 to 758). \<open>unzip_pos\<close> is what \<^verbatim>\<open>unzip_with_collapse\<close> returned; on \<^verbatim>\<open>None\<close>
  the expression \<^verbatim>\<open>range(unzip_pos-1)\<close> raises.
\<close>

definition twist_unzip_across ::
  "train_track \<Rightarrow> int \<Rightarrow> side \<Rightarrow> int \<Rightarrow> int option \<Rightarrow> error + train_track" where
  "twist_unzip_across tt switch turning good_twists_on_other_side unzip_pos =
     bind_err (outgoing_branch tt (- switch) 0 turning) (\<lambda>b.
     bind_err (branch_endpoint tt b) (\<lambda>sw.
     bind_err (outgoing_branch_index tt sw (- b) turning) (\<lambda>idx.
     bind_err (TrainTrack_fold tt sw (idx + 1) idx turning) (\<lambda>tt1.
     case unzip_pos of
       None \<Rightarrow> Inl TypeError
     | Some up \<Rightarrow>
         bind_err (for_range (nat (up - 1))
                     (\<lambda>t. TrainTrack_fold t (- switch) 1 0 (other_side turning)) tt1) (\<lambda>tt2.
         bind_err (for_range (nat (- good_twists_on_other_side))
                     (\<lambda>t. TrainTrack_fold t switch 1 0 (other_side turning)) tt2) (\<lambda>tt3.
         change_switch_orientation tt3 switch))))))"

text \<open>The position of the next unzip of the twist loop (line 706).\<close>

definition twist_pos :: "int \<Rightarrow> int \<Rightarrow> int" where
  "twist_pos nother_side good_twists_on_other_side =
     min nother_side (- good_twists_on_other_side) - 1"

text \<open>The \<^verbatim>\<open>while True\<close> loop of \<^verbatim>\<open>unzip_fold_general_twist\<close> (lines 701 to 758).\<close>

partial_function (option) twist_unzip_loop ::
  "train_track \<Rightarrow> int \<Rightarrow> side \<Rightarrow> int \<Rightarrow> int \<Rightarrow> (error + train_track) option" where
  "twist_unzip_loop tt switch turning nother_side good_twists_on_other_side =
     (let pos = twist_pos nother_side good_twists_on_other_side in
      case unzip_with_collapse tt switch pos TWO_SIDED None (other_side turning) of
        Inl e \<Rightarrow> Some (Inl e)
      | Inr (tt1, bm, unzip_pos) \<Rightarrow>
          let good_twists_on_other_side = good_twists_on_other_side + (pos + 1) in
          if unzip_pos = Some 0 then
            (if good_twists_on_other_side = 0 then Some (Inr tt1)
             else twist_unzip_loop tt1 switch turning nother_side good_twists_on_other_side)
          else
            Some (twist_unzip_across tt1 switch turning good_twists_on_other_side unzip_pos))"

declare twist_unzip_loop.simps [code]

definition unzip_fold_general_twist ::
  "train_track \<Rightarrow> int \<Rightarrow> int \<Rightarrow> int \<Rightarrow> (error + train_track) option" where
  "unzip_fold_general_twist tt pants_curve twists_on_left twists_on_right =
     (let switch = pants_curve in
      bind_run (Some (get_turning tt pants_curve)) (\<lambda>turning.
      bind_run (Some (num_curves_on_sides tt pants_curve)) (\<lambda>(nleft, nright).
      if (if turning = RIGHT then nright else nleft) = 0 then Some (Inl ZeroDivisionError)
      else
        let num_rotations =
              (if turning = RIGHT then - (twists_on_right div nright)
               else - ((- twists_on_left) div nleft));
            good_twists_on_fixed_side =
              (if turning = RIGHT then twists_on_right mod nright
               else (- twists_on_left) mod nleft);
            good_twists_on_other_side =
              (if turning = RIGHT then twists_on_left - num_rotations * nleft
               else - (twists_on_right + num_rotations * nright));
            nother_side = (if turning = RIGHT then nleft else nright)
        in
        bind_run (Some (for_range (nat good_twists_on_fixed_side)
                          (\<lambda>t. TrainTrack_fold t (- switch) 1 0 turning) tt)) (\<lambda>tt1.
        if good_twists_on_other_side > 0 then
          Some (for_range (nat good_twists_on_other_side)
                  (\<lambda>t. TrainTrack_fold t switch 1 0 turning) tt1)
        else
          twist_unzip_loop tt1 switch turning nother_side good_twists_on_other_side))))"

definition unzip_fold_pants_twist :: "train_track \<Rightarrow> int \<Rightarrow> int \<Rightarrow> (error + train_track) option" where
  "unzip_fold_pants_twist tt pants_curve power' =
     bind_run (Some (num_curves_on_sides tt pants_curve)) (\<lambda>(nleft, nright).
     unzip_fold_general_twist tt pants_curve 0 (power' * nright))"

section \<open>The elementary-move engine\<close>

definition fold_left_of_pants_curve ::
  "train_track \<Rightarrow> int \<Rightarrow> int \<Rightarrow> int \<Rightarrow> bool \<Rightarrow> error + train_track" where
  "fold_left_of_pants_curve tt bdy_switch folded_branch_index fold_onto_index inverse' =
     (let start_side = (if inverse' then RIGHT else LEFT) in
      bind_err (get_turning tt bdy_switch) (\<lambda>turning.
      if turning = RIGHT then
        TrainTrack_fold tt bdy_switch folded_branch_index fold_onto_index start_side
      else
        TrainTrack_fold tt (- bdy_switch) (folded_branch_index + 1) (fold_onto_index + 1) start_side))"

text \<open>
  The case analysis of \<^verbatim>\<open>unzip_fold_first_move\<close> after the unzip (lines 1011 to 1068);
  the comments of the source call its cases A to H.
\<close>

definition first_move_cases ::
  "train_track \<Rightarrow> int \<Rightarrow> side \<Rightarrow> int \<Rightarrow> bool \<Rightarrow> bool \<Rightarrow> int option
     \<Rightarrow> (error + train_track) option" where
  "first_move_cases tt switch turning bdy_switch lamb23 inverse' unzip_pos =
     (let twist_sign = (if inverse' then - 1 else 1) in
      if unzip_pos = Some 0 then
        (if lamb23 then
           (if (turning = LEFT) = (\<not> inverse') then
              Some (TrainTrack_fold tt (- switch) 1 2 turning)
            else
              bind_run (Some (TrainTrack_fold tt switch 1 0 (other_side turning))) (\<lambda>tt1.
              unzip_fold_general_twist tt1 bdy_switch twist_sign 0))
         else
           (if (turning = LEFT) = (\<not> inverse') then
              bind_run (unzip_fold_general_twist tt bdy_switch twist_sign 0) (\<lambda>tt1.
              bind_run (Some (fold_left_of_pants_curve tt1 bdy_switch 0 1 inverse')) (\<lambda>tt2.
              Some (fold_left_of_pants_curve tt2 bdy_switch 2 1 inverse')))
            else
              bind_run (unzip_fold_general_twist tt bdy_switch (2 * twist_sign) 0) (\<lambda>tt1.
              bind_run (Some (fold_left_of_pants_curve tt1 bdy_switch 3 2 inverse')) (\<lambda>tt2.
              Some (fold_left_of_pants_curve tt2 bdy_switch 0 1 inverse')))))
      else if unzip_pos = Some 1 then
        (if lamb23 then
           (if (turning = LEFT) = (\<not> inverse') then
              Some (TrainTrack_fold tt (- switch) 0 1 turning)
            else
              bind_run (Some (TrainTrack_fold tt switch 1 0 (other_side turning))) (\<lambda>tt1.
              unzip_fold_general_twist tt1 bdy_switch twist_sign 0))
         else
           (if (turning = LEFT) = (\<not> inverse') then
              bind_run (unzip_fold_general_twist tt bdy_switch twist_sign 0) (\<lambda>tt1.
              bind_run (Some (fold_left_of_pants_curve tt1 bdy_switch 0 1 inverse')) (\<lambda>tt2.
              Some (fold_left_of_pants_curve tt2 bdy_switch 3 2 inverse')))
            else
              bind_run (unzip_fold_general_twist tt bdy_switch (2 * twist_sign) 0) (\<lambda>tt1.
              bind_run (Some (fold_left_of_pants_curve tt1 bdy_switch 4 3 inverse')) (\<lambda>tt2.
              Some (fold_left_of_pants_curve tt2 bdy_switch 0 1 inverse')))))
      else Some (Inr tt))"

definition unzip_fold_first_move ::
  "train_track \<Rightarrow> int \<Rightarrow> BranchMap option \<Rightarrow> bool
     \<Rightarrow> (error + (train_track \<times> BranchMap option)) option" where
  "unzip_fold_first_move tt switch0 branch_map inverse' =
     bind_run (Some (orientation_of_switch_first_move tt switch0)) (\<lambda>switch.
     bind_run (Some (get_turning tt switch)) (\<lambda>turning.
     bind_run (Some (torus_boundary_switch tt switch)) (\<lambda>bdy_switch.
     bind_run (Some (outgoing_branches tt switch)) (\<lambda>out.
     let lamb23 = (length out = 3) in
     bind_run (Some (unzip_with_collapse tt switch 0 UP branch_map (other_side turning)))
       (\<lambda>(tt1, bm1, unzip_pos).
     bind_run (first_move_cases tt1 switch turning bdy_switch lamb23 inverse' unzip_pos) (\<lambda>tt2.
     Some (Inr (tt2, bm1))))))))"

section \<open>Notions of the specification and example train tracks\<close>


text \<open>
  The switch condition of the specification: at every switch the measures of the
  outgoing branches of the positive side and those of the negative side have the same
  sum. The gluing list holds the two sides of a switch next to each other.
\<close>

fun balanced_lists :: "train_track \<Rightarrow> int list list \<Rightarrow> bool" where
  "balanced_lists tt (pos_side # neg_side # rest) =
     ((case (measures_of tt pos_side, measures_of tt neg_side) of
         (Inr a, Inr b) \<Rightarrow> a = b
       | _ \<Rightarrow> False) \<and> balanced_lists tt rest)"
| "balanced_lists tt rest = True"

definition balanced :: "train_track \<Rightarrow> bool" where
  "balanced tt = balanced_lists tt (gluing_list tt)"

text \<open>
  The train tracks of the doctests: the two train tracks of the first elementary move
  in \<^verbatim>\<open>unzip_with_collapse\<close> (for \<open>t\<^sub>1 > 0\<close> and for \<open>t\<^sub>1 < 0\<close>), the left-twisting and
  the right-twisting annulus, and the genus 2 surface of \<^verbatim>\<open>unzip_fold_first_move\<close> with
  branches \<open>\<lambda>\<^sub>2\<^sub>3\<close> and with branches \<open>\<lambda>\<^sub>1\<^sub>1\<close>.
\<close>

definition first_move_track :: "int list option \<Rightarrow> train_track" where
  "first_move_track ms = DehnThurstonTT [[-1, 2, 3], [-2, 4, -3], [5], [-5, -4, 1]] ms"

definition first_move_track_neg :: "int list option \<Rightarrow> train_track" where
  "first_move_track_neg ms = DehnThurstonTT [[1, -2, 3], [-1, -4, 2], [5], [-5, -3, 4]] ms"

definition left_annulus :: "int list option \<Rightarrow> train_track" where
  "left_annulus ms =
     DehnThurstonTT [[1, 2, 3, 4], [-1, -5, -6, -7], [5], [-2], [6], [-3], [7], [-4]] ms"

definition right_annulus :: "int list option \<Rightarrow> train_track" where
  "right_annulus ms =
     DehnThurstonTT [[2, 3, 4, 1], [-5, -6, -7, -1], [5], [-2], [6], [-3], [7], [-4]] ms"

definition genus2_23 :: "int list \<Rightarrow> train_track" where
  "genus2_23 ms =
     DehnThurstonTT [[1, 6, 5], [-1, 4, -6], [-5, -4, 2], [-8, -7, -2], [7, 9, 3], [-9, 8, -3]]
       (Some ms)"

definition genus2_11 :: "int list \<Rightarrow> train_track" where
  "genus2_11 ms =
     DehnThurstonTT [[1, 5], [-1, 4], [2, -8, 9, -7, -9], [-2, -5, 6, -4, -6], [7, 3], [8, -3]]
       (Some ms)"


definition genus2_lambda11 :: train_track where
  "genus2_lambda11 = genus2_11 [100, 20, 30, 1, 1, 4, 4, 4, 1]"

text \<open>What a doctest prints after a call: the returned value and the fields of the state.\<close>

definition returned_and_measure ::
  "error + train_track \<times> BranchMap option \<times> int option
     \<Rightarrow> (int option \<times> int list option) option" where
  "returned_and_measure r =
     (case r of Inl e \<Rightarrow> None | Inr (tt, bm, v) \<Rightarrow> Some (v, measure_table tt))"

definition gluing_and_endpoints ::
  "error + train_track \<times> BranchMap option
     \<Rightarrow> (int list list \<times> (int list \<times> int list)) option" where
  "gluing_and_endpoints r =
     (case r of Inl e \<Rightarrow> None
      | Inr (tt, bm) \<Rightarrow> Some (gluing_list tt, branch_endpoint_table tt))"

definition gluing_and_measure ::
  "(error + train_track) option \<Rightarrow> (int list list \<times> int list option) option" where
  "gluing_and_measure r =
     (case r of Some (Inr tt) \<Rightarrow> Some (gluing_list tt, measure_table tt) | _ \<Rightarrow> None)"

text \<open>A sequence of calls \<^verbatim>\<open>unzip_fold_first_move(switch, inverse=...)\<close> on one train track.\<close>

fun first_moves :: "train_track \<Rightarrow> (int \<times> bool) list \<Rightarrow> (error + train_track) option" where
  "first_moves tt [] = Some (Inr tt)"
| "first_moves tt ((switch, inverse') # calls) =
     (case unzip_fold_first_move tt switch None inverse' of
        None \<Rightarrow> None
      | Some (Inl e) \<Rightarrow> Some (Inl e)
      | Some (Inr (tt', bm)) \<Rightarrow> first_moves tt' calls)"

text \<open>
  A helper that answers every call with the same position and measures. It stands for a
  base class whose \<^verbatim>\<open>unzip_pos\<close> returns on a train track without measure.
\<close>

definition unzip_pos_answers ::
  "int \<times> int \<times> int \<Rightarrow> train_track \<Rightarrow> int \<Rightarrow> int \<Rightarrow> side \<Rightarrow> error + (int \<times> int \<times> int)" where
  "unzip_pos_answers res tt switch pos start_side = Inr res"


section \<open>Properties of BranchMap\<close>

lemma rev_neg_rev_neg: "rev (map uminus (rev (map uminus (l::int list)))) = l"
  by (simp add: rev_map comp_def)

lemma branch_list_neg:
  assumes "b \<noteq> 0" and "branch_list bm b = Inr l"
  shows "branch_list bm (- b) = Inr (rev (map uminus l))"
proof (cases "b > 0")
  case True
  with assms show ?thesis
    by (auto simp: branch_list_def split: option.splits)
next
  case False
  with assms have "b < 0" by simp
  with assms show ?thesis
    by (auto simp: branch_list_def rev_neg_rev_neg split: option.splits)
qed

lemma branch_list_defined:
  assumes "\<bar>b\<bar> \<in> dom bm"
  shows "\<exists>l. branch_list bm b = Inr l"
proof (cases "b > 0")
  case True
  with assms show ?thesis by (auto simp: branch_list_def)
next
  case False
  then have "\<bar>b\<bar> = - b" by simp
  with assms False show ?thesis by (auto simp: branch_list_def)
qed

text \<open>
  C5. In every branch map built by the constructor and changed by any number of
  \<^verbatim>\<open>append\<close> calls, every signed branch \<open>b\<close> (a nonzero label) whose unsigned label is a key
  has a branch list, and \<^verbatim>\<open>branch_list(-b)\<close> is \<^verbatim>\<open>branch_list(b)\<close> reversed with every
  entry negated.
\<close>

theorem branch_list_reversal_law:
  assumes "reachable_bm bm" and "b \<noteq> 0" and "\<bar>b\<bar> \<in> dom bm"
  shows "\<exists>l. branch_list bm b = Inr l \<and> branch_list bm (- b) = Inr (rev (map uminus l))"
proof -
  from assms(3) obtain l where "branch_list bm b = Inr l"
    using branch_list_defined by blast
  with assms(2) show ?thesis
    using branch_list_neg by blast
qed

theorem branch_list_reversal_law_witness:
  "reachable_bm ((BranchMap_init [2, -4, 5, -6, 1])(2 \<mapsto> [2, -4]))
   \<and> (-2::int) \<noteq> 0
   \<and> \<bar>-2::int\<bar> \<in> dom ((BranchMap_init [2, -4, 5, -6, 1])(2 \<mapsto> [2, -4]))
   \<and> (\<exists>l. branch_list ((BranchMap_init [2, -4, 5, -6, 1])(2 \<mapsto> [2, -4])) (-2) = Inr l
          \<and> branch_list ((BranchMap_init [2, -4, 5, -6, 1])(2 \<mapsto> [2, -4])) (- (-2))
              = Inr (rev (map uminus l)))"
proof -
  let ?bm = "(BranchMap_init [2, -4, 5, -6, 1])(2 \<mapsto> [2, -4])"
  have "append_bm (BranchMap_init [2, -4, 5, -6, 1]) 2 (-4) = Inr ?bm"
    by (simp add: append_bm_def branch_list_def BranchMap_init_def)
  then have r: "reachable_bm ?bm"
    using reachable_bm.init reachable_bm.step by blast
  have n: "(-2::int) \<noteq> 0" by simp
  have d: "\<bar>-2::int\<bar> \<in> dom ?bm" by simp
  from branch_list_reversal_law [OF r n d] r n d show ?thesis by blast
qed

text \<open>
  C9. When the unsigned labels of \<open>t\<close> and \<open>o\<close> are keys of the branch map and \<open>o\<close> is a
  signed branch (a nonzero label), \<^verbatim>\<open>append(t, o)\<close> succeeds, and afterwards
  \<^verbatim>\<open>branch_list(t)\<close> is the old \<^verbatim>\<open>branch_list(t)\<close> followed by the old \<^verbatim>\<open>branch_list(o)\<close>,
  while the branch lists of every label other than \<open>\<plusminus>t\<close> are as before.
\<close>

theorem append_bm_branch_list:
  assumes "\<bar>t\<bar> \<in> dom m" and "\<bar>o'\<bar> \<in> dom m" and "o' \<noteq> 0"
  shows "\<exists>m' lt lo. append_bm m t o' = Inr m'
           \<and> branch_list m t = Inr lt \<and> branch_list m o' = Inr lo
           \<and> branch_list m' t = Inr (lt @ lo)
           \<and> (\<forall>u. \<bar>u\<bar> \<noteq> \<bar>t\<bar> \<longrightarrow>
                  branch_list m' u = branch_list m u
                  \<and> branch_list m' (- u) = branch_list m (- u))"
proof -
  from assms(1) obtain lt where lt: "branch_list m t = Inr lt"
    using branch_list_defined by blast
  from assms(2) obtain lo where lo: "branch_list m o' = Inr lo"
    using branch_list_defined by blast
  from lo assms(3) have lo': "branch_list m (- o') = Inr (rev (map uminus lo))"
    by (rule branch_list_neg [rotated])
  show ?thesis
  proof (cases "t > 0")
    case True
    with lt have mt: "m t = Some lt"
      by (auto simp: branch_list_def split: option.splits)
    let ?m' = "m(t \<mapsto> lt @ lo)"
    from True mt lo have a: "append_bm m t o' = Inr ?m'"
      by (simp add: append_bm_def)
    from True have b: "branch_list ?m' t = Inr (lt @ lo)"
      by (simp add: branch_list_def)
    have c: "\<forall>u. \<bar>u\<bar> \<noteq> \<bar>t\<bar> \<longrightarrow> branch_list ?m' u = branch_list m u
                \<and> branch_list ?m' (- u) = branch_list m (- u)"
      using True by (auto simp: branch_list_def)
    from a b c lt lo show ?thesis by blast
  next
    case False
    with lt obtain l where ml: "m (- t) = Some l" and ltl: "lt = rev (map uminus l)"
      by (auto simp: branch_list_def split: option.splits)
    let ?m' = "m(- t \<mapsto> rev (map uminus lo) @ l)"
    from False ml lo' have a: "append_bm m t o' = Inr ?m'"
      by (simp add: append_bm_def)
    from False ltl have b: "branch_list ?m' t = Inr (lt @ lo)"
      by (simp add: branch_list_def rev_map comp_def)
    have c: "\<forall>u. \<bar>u\<bar> \<noteq> \<bar>t\<bar> \<longrightarrow> branch_list ?m' u = branch_list m u
                \<and> branch_list ?m' (- u) = branch_list m (- u)"
      using False by (auto simp: branch_list_def)
    from a b c lt lo show ?thesis by blast
  qed
qed

theorem append_bm_branch_list_witness:
  "\<bar>-2::int\<bar> \<in> dom (BranchMap_init [2, -4, 5, -6, 1])
   \<and> \<bar>5::int\<bar> \<in> dom (BranchMap_init [2, -4, 5, -6, 1])
   \<and> (5::int) \<noteq> 0
   \<and> (\<exists>m' lt lo. append_bm (BranchMap_init [2, -4, 5, -6, 1]) (-2) 5 = Inr m'
           \<and> branch_list (BranchMap_init [2, -4, 5, -6, 1]) (-2) = Inr lt
           \<and> branch_list (BranchMap_init [2, -4, 5, -6, 1]) 5 = Inr lo
           \<and> branch_list m' (-2) = Inr (lt @ lo)
           \<and> (\<forall>u. \<bar>u\<bar> \<noteq> \<bar>-2\<bar> \<longrightarrow>
                  branch_list m' u = branch_list (BranchMap_init [2, -4, 5, -6, 1]) u
                  \<and> branch_list m' (- u) = branch_list (BranchMap_init [2, -4, 5, -6, 1]) (- u)))"
proof -
  let ?m = "BranchMap_init [2, -4, 5, -6, 1]"
  have d1: "\<bar>-2::int\<bar> \<in> dom ?m" by (simp add: BranchMap_init_def)
  have d2: "\<bar>5::int\<bar> \<in> dom ?m" by (simp add: BranchMap_init_def)
  have n: "(5::int) \<noteq> 0" by simp
  from append_bm_branch_list [OF d1 d2 n] d1 d2 n show ?thesis by blast
qed

text \<open>
  The two theorems speak of signed branches. The label 0 has no direction, \<open>-0 = 0\<close>, and
  the train track numbers its branches from 1; a branch map that is given the key 0 can
  hold a list for it that is not its own reverse.
\<close>

lemma label_0_has_no_reverse:
  "append_bm (BranchMap_init [0, 1]) 0 1 = Inr ((BranchMap_init [0, 1])(0 \<mapsto> [- 1, 0]))
   \<and> branch_list ((BranchMap_init [0, 1])(0 \<mapsto> [- 1, 0])) 0 = Inr [0, 1]
   \<and> branch_list ((BranchMap_init [0, 1])(0 \<mapsto> [- 1, 0])) (- 0) = Inr [0, 1]
   \<and> rev (map uminus [0, 1 :: int]) = [- 1, 0]"
  by (simp add: append_bm_def branch_list_def BranchMap_init_def)

section \<open>Properties of the classification queries\<close>

lemma bind_err_Inr_iff:
  "bind_err r f = Inr v \<longleftrightarrow> (\<exists>x. r = Inr x \<and> f x = Inr v)"
  by (cases r) (auto simp: bind_err_def)





section \<open>Properties of the unzip and collapse engine\<close>

lemma bind_err_Inl_iff:
  "bind_err r f = Inl e \<longleftrightarrow> r = Inl e \<or> (\<exists>x. r = Inr x \<and> f x = Inl e)"
  by (cases r) (auto simp: bind_err_def)

text \<open>The operations below \<^verbatim>\<open>unzip_with_collapse_no_measure\<close> raise no assertion failure.\<close>

lemma py_get_not_assert: "py_get xs i \<noteq> Inl (AssertionError n)"
  by (simp add: py_get_def split: option.splits)

lemma py_set_not_assert: "py_set xs i v \<noteq> Inl (AssertionError n)"
  by (simp add: py_set_def split: option.splits)

lemma py_pop_not_assert: "py_pop xs i \<noteq> Inl (AssertionError n)"
  by (simp add: py_pop_def split: option.splits)

lemma py_index_not_assert: "py_index xs v \<noteq> Inl (AssertionError n)"
  by (induction xs) (auto split: sum.splits)

lemma outgoing_branches_not_assert: "outgoing_branches tt switch \<noteq> Inl (AssertionError n)"
  by (simp add: outgoing_branches_def)

lemma outgoing_branch_not_assert: "outgoing_branch tt switch pos side \<noteq> Inl (AssertionError n)"
  by (simp add: outgoing_branch_def bind_err_Inl_iff outgoing_branches_not_assert
      py_get_not_assert)

lemma branch_endpoint_not_assert: "branch_endpoint tt b \<noteq> Inl (AssertionError n)"
  by (simp add: branch_endpoint_def py_get_not_assert)

lemma set_endpoint_not_assert: "set_endpoint tt b sw \<noteq> Inl (AssertionError n)"
  by (simp add: set_endpoint_def bind_err_Inl_iff py_set_not_assert)

lemma for_each_not_assert:
  assumes "\<And>x s. f x s \<noteq> Inl (AssertionError n)"
  shows "for_each f xs s \<noteq> Inl (AssertionError n)"
  using assms by (induction xs arbitrary: s) (auto split: sum.splits)

lemma branch_list_not_assert: "branch_list bm b \<noteq> Inl (AssertionError n)"
  by (simp add: branch_list_def split: option.splits)

lemma append_bm_not_assert: "append_bm bm t b \<noteq> Inl (AssertionError n)"
  using branch_list_not_assert
  by (auto simp: append_bm_def split: option.splits sum.splits)

lemmas not_assert =
  py_get_not_assert py_set_not_assert py_pop_not_assert py_index_not_assert
  outgoing_branches_not_assert outgoing_branch_not_assert branch_endpoint_not_assert
  set_endpoint_not_assert for_each_not_assert branch_list_not_assert append_bm_not_assert

lemma no_measure_UP_not_439:
  "no_measure_UP tt switch unzip_pos branch_map start_side unzip_branch bottom_switch
     \<noteq> Inl (AssertionError 439)"
  unfolding no_measure_UP_def Let_def
  by (auto simp: bind_err_Inl_iff not_assert split: prod.splits option.splits)

text \<open>
  C10. With \<^verbatim>\<open>collapse_type == UP\<close>, \<^verbatim>\<open>unzip_with_collapse_no_measure\<close> fails with the
  assertion of line 439 exactly when \<open>pos\<close> is not 0: every call with another \<open>pos\<close> fails
  there, and no call with \<open>pos = 0\<close> does.
\<close>

theorem no_measure_UP_requires_pos_0:
  "unzip_with_collapse_no_measure tt switch pos unzip_pos UP branch_map start_side
     = Inl (AssertionError 439) \<longleftrightarrow> pos \<noteq> 0"
  unfolding unzip_with_collapse_no_measure_def
  by (auto simp: bind_err_Inl_iff not_assert no_measure_UP_not_439)







lemma unzip_scan_position:
  "unzip_scan tt s i acc bs = Inr (k, m1, m2) \<Longrightarrow> i \<le> k"
proof (induction bs arbitrary: i acc)
  case Nil
  then show ?case by simp
next
  case (Cons b bs)
  then show ?case
    by (fastforce split: sum.splits if_splits)
qed

lemma TrainTrack_unzip_pos_position:
  "TrainTrack_unzip_pos tt switch pos start_side = Inr (k, meas1, meas2) \<Longrightarrow> 0 \<le> k"
  by (auto simp: TrainTrack_unzip_pos_def bind_err_Inr_iff dest: unzip_scan_position)






section \<open>Termination of the twist loop\<close>

lemma twist_pos_progress:
  assumes "g < 0" and "1 \<le> n"
  shows "1 \<le> twist_pos n g + 1" and "g + (twist_pos n g + 1) \<le> 0"
  using assms by (auto simp: twist_pos_def)

text \<open>
  With at least one curve on the other side the loop ends from every negative counter:
  the counter grows at every iteration and stays below or at zero.
\<close>

lemma twist_unzip_loop_returns:
  assumes "g < 0" and "1 \<le> nother_side"
  shows "\<exists>r. twist_unzip_loop tt switch turning nother_side g = Some r"
  using assms(1)
proof (induction "nat (- g)" arbitrary: g tt rule: less_induct)
  case less
  let ?pos = "twist_pos nother_side g"
  let ?g' = "g + (?pos + 1)"
  from less.prems assms(2) have p: "1 \<le> ?pos + 1" and q: "?g' \<le> 0"
    by (rule twist_pos_progress)+
  show ?case
  proof (cases "unzip_with_collapse tt switch ?pos TWO_SIDED None (other_side turning)")
    case (Inl e)
    then show ?thesis
      by (subst twist_unzip_loop.simps) simp
  next
    case (Inr res)
    obtain tt1 bm unzip_pos where res: "res = (tt1, bm, unzip_pos)"
      by (cases res) auto
    show ?thesis
    proof (cases "unzip_pos = Some 0 \<and> ?g' \<noteq> 0")
      case True
      with q have neg: "?g' < 0" by simp
      from p less.prems have "nat (- ?g') < nat (- g)" by simp
      from less.hyps [OF this neg] obtain r where
        "twist_unzip_loop tt1 switch turning nother_side ?g' = Some r" by blast
      with Inr res True show ?thesis
        by (subst twist_unzip_loop.simps) (simp add: Let_def)
    next
      case False
      with Inr res show ?thesis
        by (subst twist_unzip_loop.simps) (auto simp: Let_def)
    qed
  qed
qed

text \<open>From the counter 0 the loop makes one unzip, at \<open>pos = -1\<close>, and ends.\<close>

lemma twist_unzip_loop_returns_at_0:
  assumes "0 \<le> nother_side"
  shows "\<exists>r. twist_unzip_loop tt switch turning nother_side 0 = Some r"
proof -
  from assms have p: "twist_pos nother_side 0 = - 1" by (simp add: twist_pos_def)
  show ?thesis
  proof (cases "unzip_with_collapse tt switch (- 1) TWO_SIDED None (other_side turning)")
    case (Inl e)
    with p show ?thesis
      by (subst twist_unzip_loop.simps) simp
  next
    case (Inr res)
    obtain tt1 bm unzip_pos where res: "res = (tt1, bm, unzip_pos)"
      by (cases res) auto
    with Inr p show ?thesis
      by (subst twist_unzip_loop.simps) (auto simp: Let_def)
  qed
qed

text \<open>
  So \<^verbatim>\<open>unzip_fold_general_twist\<close> returns or raises, for all twist numbers, when the side
  that is not fixed has at least one curve.
\<close>

corollary unzip_fold_general_twist_returns:
  assumes "get_turning tt pants_curve = Inr turning"
    and "num_curves_on_sides tt pants_curve = Inr (nleft, nright)"
    and "1 \<le> (if turning = RIGHT then nleft else nright)"
  shows "\<exists>r. unzip_fold_general_twist tt pants_curve twists_on_left twists_on_right = Some r"
proof -
  have loop: "\<exists>r. twist_unzip_loop tt1 pants_curve turning n g = Some r"
    if "\<not> 0 < g" and "1 \<le> n" for g n tt1
  proof (cases "g = 0")
    case True
    with that(2) show ?thesis
      using twist_unzip_loop_returns_at_0 [of n tt1 pants_curve turning] by simp
  next
    case False
    with that(1) have "g < 0" by simp
    from twist_unzip_loop_returns [OF this that(2)] show ?thesis .
  qed
  show ?thesis
  proof (cases turning)
    case LEFT
    with assms(3) have n: "1 \<le> nright" by simp
    show ?thesis
    proof (cases "for_range (nat ((- twists_on_left) mod nleft))
                    (\<lambda>t. TrainTrack_fold t (- pants_curve) 1 0 LEFT) tt")
      case (Inl e)
      with LEFT show ?thesis
        by (simp add: unzip_fold_general_twist_def Let_def assms(1,2) bind_run_def)
    next
      case (Inr tt1)
      with LEFT loop [OF _ n] show ?thesis
        by (simp add: unzip_fold_general_twist_def Let_def assms(1,2) bind_run_def)
    qed
  next
    case RIGHT
    with assms(3) have n: "1 \<le> nleft" by simp
    show ?thesis
    proof (cases "for_range (nat (twists_on_right mod nright))
                    (\<lambda>t. TrainTrack_fold t (- pants_curve) 1 0 RIGHT) tt")
      case (Inl e)
      with RIGHT show ?thesis
        by (simp add: unzip_fold_general_twist_def Let_def assms(1,2) bind_run_def)
    next
      case (Inr tt1)
      with RIGHT loop [OF _ n] show ?thesis
        by (simp add: unzip_fold_general_twist_def Let_def assms(1,2) bind_run_def)
    qed
  qed
qed







section \<open>The unzip at position \<open>-1\<close>\<close>

text \<open>
  With the counter 0 the twist loop unzips at \<open>pos = -1\<close>. From the left the rotation of
  lines 524 to 526 moves the empty slice \<^verbatim>\<open>[:pos+1]\<close> and the train track stays as it is;
  from the right the slice \<^verbatim>\<open>[-pos-1:]\<close> of line 528 is the whole list, and lines 529 and
  530 put the first branch twice and drop the last one, in every list of branches.
\<close>

lemma rotate_top_left_minus_1: "rotate_top LEFT (- 1) xs = xs"
  by (simp add: rotate_top_def py_del_to_def py_splice_def py_slice_to_def py_bound_def Let_def)

lemma rotate_top_right_minus_1:
  assumes "ys \<noteq> []"
  shows "rotate_top RIGHT (- 1) ys = hd ys # butlast ys"
proof -
  from assms obtain x xs where t: "ys = x # xs" by (cases ys) auto
  have n: "nat (1 + int (length xs)) = Suc (length xs)" by simp
  have "rotate_top RIGHT (- 1) (x # xs) = take (Suc (length xs)) (x # (x # xs) @ xs)"
    by (simp add: rotate_top_def py_del_from_def py_splice_def py_slice_from_def py_bound_def
        Let_def n)
  also have "\<dots> = x # take (length xs) ((x # xs) @ xs)" by simp
  also have "\<dots> = x # take (length xs) (x # xs)"
    by (simp only: take_append) simp
  also have "\<dots> = x # butlast (x # xs)" by (simp add: butlast_conv_take)
  finally show ?thesis using t by simp
qed

lemma unzip_at_minus_1_from_left:
  "gluing_and_endpoints (unzip_with_collapse_no_measure (right_annulus None)
       1 (- 1) 0 TWO_SIDED None LEFT)
     = Some ([[2, 3, 4, 1], [- 5, - 6, - 7, - 1], [5], [- 2], [6], [- 3], [7], [- 4]],
             ([1, 1, 1, 1, 2, 3, 4], [- 1, - 2, - 3, - 4, - 1, - 1, - 1]))"
  by code_simp

lemma unzip_at_minus_1_from_right:
  "gluing_and_endpoints (unzip_with_collapse_no_measure (left_annulus None)
       1 (- 1) 0 TWO_SIDED None RIGHT)
     = Some ([[1, 1, 2, 3], [- 1, - 5, - 6, - 7], [5], [- 2], [6], [- 3], [7], [- 4]],
             ([1, 1, 1, 1, 2, 3, 4], [- 1, - 2, - 3, - 4, - 1, - 1, - 1]))"
  by code_simp

text \<open>
  Whether \<^verbatim>\<open>unzip_with_collapse\<close> reaches these lines is decided by \<^verbatim>\<open>unzip_pos\<close> of the base
  class, which line 285 calls first, here with \<open>pos = -1\<close>. When the helper raises, the
  call raises with it and the train track is not changed; when it answers with the
  position 0, the call from the right leaves \<open>[1, 1, 2, 3]\<close> at switch 1 of the
  left-turning annulus.
\<close>

lemma unzip_with_collapse_via_raises:
  "base_unzip_pos tt switch pos start_side = Inl e
     \<Longrightarrow> unzip_with_collapse_via base_unzip_pos tt switch pos collapse_type branch_map
           start_side = Inl e"
  by (simp add: unzip_with_collapse_via_def bind_err_def)

lemma unzip_via_at_minus_1_from_right:
  "returned_and_measure
       (unzip_with_collapse_via (unzip_pos_answers (0, 0, 10))
          (left_annulus (Some [10, 2, 3, 4, 2, 3, 4])) 1 (- 1) TWO_SIDED None RIGHT)
     = Some (Some 0, Some [10, 2, 3, 4, 2, 3, 4])
   \<and> gluing_and_endpoints
       (case unzip_with_collapse_via (unzip_pos_answers (0, 0, 10))
               (left_annulus (Some [10, 2, 3, 4, 2, 3, 4])) 1 (- 1) TWO_SIDED None RIGHT of
          Inl e \<Rightarrow> Inl e | Inr (tt', bm', r) \<Rightarrow> Inr (tt', bm'))
     = Some ([[1, 1, 2, 3], [- 1, - 5, - 6, - 7], [5], [- 2], [6], [- 3], [7], [- 4]],
             ([1, 1, 1, 1, 2, 3, 4], [- 1, - 2, - 3, - 4, - 1, - 1, - 1]))"
  by code_simp

text \<open>
  The lemmas that follow hold for the helper as it is modelled, which answers
  \<open>(0, 0, m)\<close> at \<open>pos = -1\<close>, a value that neither the source file nor the specification
  gives. With it a twist by 0 leaves a right-turning train track as it is, and on a
  left-turning one it puts branch 1 twice among the outgoing branches of switch 1 and
  drops branch 4, so that the sums of the measures on the two sides of switch 1 are 25
  and 19.
\<close>

lemma pants_twist_zero_right_turning:
  "gluing_and_measure (unzip_fold_pants_twist (right_annulus (Some [10, 2, 3, 4, 2, 3, 4])) 1 0)
     = Some ([[2, 3, 4, 1], [- 5, - 6, - 7, - 1], [5], [- 2], [6], [- 3], [7], [- 4]],
             Some [10, 2, 3, 4, 2, 3, 4])"
  by code_simp

lemma pants_twist_zero_left_turning:
  "balanced (left_annulus (Some [10, 2, 3, 4, 2, 3, 4]))
   \<and> (case unzip_fold_pants_twist (left_annulus (Some [10, 2, 3, 4, 2, 3, 4])) 1 0 of
        Some (Inr tt') \<Rightarrow>
          gluing_list tt' = [[1, 1, 2, 3], [- 1, - 5, - 6, - 7], [5], [- 2], [6], [- 3], [7], [- 4]]
          \<and> measure_table tt' = Some [10, 2, 3, 4, 2, 3, 4]
          \<and> measures_of tt' [1, 1, 2, 3] = Inr 25
          \<and> measures_of tt' [- 1, - 5, - 6, - 7] = Inr 19
          \<and> \<not> balanced tt'
      | _ \<Rightarrow> False)"
  by code_simp

lemma pants_twist_zero_twice_left_turning:
  "gluing_list (left_annulus (Some [10, 2, 3, 4, 2, 3, 4]))
     = [[1, 2, 3, 4], [- 1, - 5, - 6, - 7], [5], [- 2], [6], [- 3], [7], [- 4]]
   \<and> (case bind_run (unzip_fold_pants_twist (left_annulus (Some [10, 2, 3, 4, 2, 3, 4])) 1 0)
             (\<lambda>tt'. unzip_fold_pants_twist tt' 1 (- 0)) of
        Some (Inr tt'') \<Rightarrow>
          gluing_list tt'' = [[1, 1, 1, 2], [- 1, - 5, - 6, - 7], [5], [- 2], [6], [- 3], [7], [- 4]]
      | _ \<Rightarrow> False)"
  by code_simp

section \<open>The scenarios of the twist and elementary-move engines\<close>

text \<open>
  C7. On the train track with the gluing list
  \<open>[[1,2,3,4],[-1,-5,-6,-7],[5],[-2],[6],[-3],[7],[-4]]\<close> and the measures \<open>[1,2,3,4,5,6,7]\<close>
  the call \<^verbatim>\<open>unzip_fold_general_twist(1,-2,-1)\<close> returns; afterwards the measures are
  \<open>[14,2,3,4,5,6,7]\<close> and the outgoing branches of the switch \<open>-1\<close>, the second list of the
  gluing list, are \<open>[-1,-7,-5,-6]\<close>; the whole state is the one the doctest prints.
\<close>

theorem general_twist_scenario:
  "unzip_fold_general_twist (left_annulus (Some [1, 2, 3, 4, 5, 6, 7])) 1 (- 2) (- 1)
     = Some (Inr
        \<lparr>gluing_list = [[1, 3, 4, 2], [- 1, - 7, - 5, - 6], [5], [- 2], [6], [- 3], [7], [- 4]],
         branch_endpoint_table = ([1, 1, 1, 1, 2, 3, 4], [- 1, - 2, - 3, - 4, - 1, - 1, - 1]),
         measure_table = Some [14, 2, 3, 4, 5, 6, 7]\<rparr>)"
  by code_simp

text \<open>
  C4 fails on the code. Switch 1 of \<open>genus2_lambda11\<close> gives a first elementary move, the
  branches \<open>\<lambda>\<^sub>1\<^sub>1\<close> are present and the measure satisfies the switch condition. The move
  (case C of the source) followed by the move with \<^verbatim>\<open>inverse=True\<close> (case E) returns, but
  the outgoing branches of switch \<open>-2\<close> are \<open>[-2,-6,-5,6,-4]\<close> and not \<open>[-2,-5,6,-4,-6]\<close>, and
  branch 2 has the measure 16 and not 20.
\<close>

theorem first_move_round_trip_fails:
  "elem_move_type genus2_lambda11 1 = Inr 1
   \<and> balanced genus2_lambda11
   \<and> gluing_list genus2_lambda11
       = [[1, 5], [- 1, 4], [2, - 8, 9, - 7, - 9], [- 2, - 5, 6, - 4, - 6], [7, 3], [8, - 3]]
   \<and> measure_table genus2_lambda11 = Some [100, 20, 30, 1, 1, 4, 4, 4, 1]
   \<and> (case bind_run (unzip_fold_first_move genus2_lambda11 1 None False)
             (\<lambda>(tt', bm). unzip_fold_first_move tt' 1 bm True) of
        Some (Inr (tt'', bm)) \<Rightarrow>
          gluing_list tt''
            = [[1, 5], [- 1, 4], [2, - 8, 9, - 7, - 9], [- 2, - 6, - 5, 6, - 4], [7, 3], [8, - 3]]
          \<and> measure_table tt'' = Some [100, 16, 30, 1, 1, 4, 4, 4, 1]
      | _ \<Rightarrow> False)"
  by code_simp

section \<open>The doctests of the source file\<close>

text \<open>
  The model gives, for every doctest of \<^verbatim>\<open>unzip_with_collapse\<close>,
  \<^verbatim>\<open>unzip_with_collapse_no_measure\<close>, \<^verbatim>\<open>unzip_fold_general_twist\<close>,
  \<^verbatim>\<open>unzip_fold_pants_twist\<close>, \<^verbatim>\<open>unzip_fold_first_move\<close> and \<^verbatim>\<open>pants_branch_on_switch\<close>, the
  values that the source file states. This ties the operations of the base class, which are modelled from the
  specification, to the behaviour that the source file documents.
\<close>

lemma doctest_unzip_with_collapse_1:
  "returned_and_measure (unzip_with_collapse (first_move_track (Some [11, 3, 100, 11, 2]))
       1 0 UP None LEFT)
     = Some (Some 0, Some [11, 3, 89, 11, 2])"
  by code_simp

lemma doctest_unzip_with_collapse_2:
  "returned_and_measure (unzip_with_collapse (first_move_track (Some [100, 3, 11, 100, 2]))
       1 0 UP None LEFT)
     = Some (Some 1, Some [89, 3, 11, 11, 2])"
  by code_simp

lemma doctest_unzip_with_collapse_3:
  "returned_and_measure (unzip_with_collapse (first_move_track_neg (Some [100, 5, 11, 11, 2]))
       1 0 UP None RIGHT)
     = Some (Some 0, Some [89, 5, 11, 11, 2])"
  by code_simp

lemma doctest_unzip_with_collapse_4:
  "returned_and_measure (unzip_with_collapse (first_move_track_neg (Some [11, 5, 100, 100, 2]))
       1 0 UP None RIGHT)
     = Some (Some 1, Some [11, 5, 89, 11, 2])"
  by code_simp

lemma doctest_unzip_with_collapse_5:
  "returned_and_measure (unzip_with_collapse (left_annulus (Some [100, 1, 5, 6, 6, 5, 1]))
       1 1 TWO_SIDED None RIGHT)
     = Some (Some 0, Some [89, 1, 5, 6, 6, 5, 1])"
  by code_simp

lemma doctest_unzip_with_collapse_6:
  "returned_and_measure (unzip_with_collapse (left_annulus (Some [10, 6, 15, 3, 3, 15, 6]))
       1 1 TWO_SIDED None RIGHT)
     = Some (Some 2, Some [5, 6, 15, 3, 3, 10, 6])"
  by code_simp

lemma doctest_unzip_with_collapse_7:
  "returned_and_measure (unzip_with_collapse (right_annulus (Some [100, 1, 5, 6, 6, 5, 1]))
       1 1 TWO_SIDED None LEFT)
     = Some (Some 0, Some [94, 1, 5, 6, 6, 5, 1])"
  by code_simp

lemma doctest_unzip_with_collapse_8:
  "returned_and_measure (unzip_with_collapse (right_annulus (Some [10, 8, 15, 6, 6, 15, 8]))
       1 1 TWO_SIDED None LEFT)
     = Some (Some 2, Some [5, 8, 15, 6, 6, 10, 8])"
  by code_simp

lemma doctest_no_measure_1:
  "gluing_and_endpoints (unzip_with_collapse_no_measure (first_move_track None)
       1 0 0 UP None LEFT)
     = Some ([[2, - 1, 3], [- 2, 4, - 3], [5], [- 5, - 4, 1]],
             ([- 2, 1, 1, - 1, 2], [1, - 1, - 1, - 2, - 2]))"
  by code_simp

lemma doctest_no_measure_2:
  "gluing_and_endpoints (unzip_with_collapse_no_measure (first_move_track None)
       1 0 1 UP None LEFT)
     = Some ([[2, 3], [- 2, 4], [5], [- 5, - 1, - 4, 1, - 3]],
             ([- 2, 1, 1, - 1, 2], [- 2, - 1, - 2, - 2, - 2]))"
  by code_simp

lemma doctest_no_measure_3:
  "gluing_and_endpoints (unzip_with_collapse_no_measure (first_move_track_neg None)
       1 0 0 UP None RIGHT)
     = Some ([[1, 3, - 2], [- 1, - 4, 2], [5], [- 5, - 3, 4]],
             ([1, - 1, 1, - 2, 2], [- 1, 1, - 2, - 1, - 2]))"
  by code_simp

lemma doctest_no_measure_4:
  "gluing_and_endpoints (unzip_with_collapse_no_measure (first_move_track_neg None)
       1 0 1 UP None RIGHT)
     = Some ([[1, - 2], [- 4, 2], [5], [- 5, - 1, - 3, 4, 3]],
             ([1, - 1, - 2, - 2, 2], [- 2, 1, - 2, - 1, - 2]))"
  by code_simp

lemma doctest_no_measure_5:
  "gluing_and_endpoints (unzip_with_collapse_no_measure (left_annulus None)
       1 1 0 TWO_SIDED None RIGHT)
     = Some ([[1, 3, 4, 2], [- 1, - 5, - 6, - 7], [5], [- 2], [6], [- 3], [7], [- 4]],
             ([1, 1, 1, 1, 2, 3, 4], [- 1, - 2, - 3, - 4, - 1, - 1, - 1]))"
  by code_simp

lemma doctest_no_measure_6:
  "gluing_and_endpoints (unzip_with_collapse_no_measure (left_annulus None)
       1 1 2 TWO_SIDED None RIGHT)
     = Some ([[3, 4, 2], [- 6, - 7, - 5, 1], [5], [- 2], [6, - 1], [- 3], [7], [- 4]],
             ([- 1, 1, 1, 1, 2, 3, 4], [3, - 2, - 3, - 4, - 1, - 1, - 1]))"
  by code_simp

lemma doctest_no_measure_7:
  "gluing_and_endpoints (unzip_with_collapse_no_measure (right_annulus None)
       1 1 0 TWO_SIDED None LEFT)
     = Some ([[4, 2, 3, 1], [- 5, - 6, - 7, - 1], [5], [- 2], [6], [- 3], [7], [- 4]],
             ([1, 1, 1, 1, 2, 3, 4], [- 1, - 2, - 3, - 4, - 1, - 1, - 1]))"
  by code_simp

lemma doctest_no_measure_8:
  "gluing_and_endpoints (unzip_with_collapse_no_measure (right_annulus None)
       1 1 2 TWO_SIDED None LEFT)
     = Some ([[4, 2, 3], [1, - 7, - 5, - 6], [5], [- 2], [- 1, 6], [- 3], [7], [- 4]],
             ([- 1, 1, 1, 1, 2, 3, 4], [3, - 2, - 3, - 4, - 1, - 1, - 1]))"
  by code_simp

lemma doctest_general_twist_2:
  "unzip_fold_general_twist (left_annulus (Some [10, 2, 3, 4, 5, 6, 7])) 1 (- 2) 1
     = Some (Inr
        \<lparr>gluing_list = [[1, 4, 2, 3], [- 1, - 7, - 5, - 6], [5], [- 2], [6], [- 3], [7], [- 4]],
         branch_endpoint_table = ([1, 1, 1, 1, 2, 3, 4], [- 1, - 2, - 3, - 4, - 1, - 1, - 1]),
         measure_table = Some [17, 2, 3, 4, 5, 6, 7]\<rparr>)"
  by code_simp

lemma doctest_general_twist_3:
  "unzip_fold_general_twist (left_annulus (Some [100, 2, 3, 13, 5, 6, 7])) 1 2 1
     = Some (Inr
        \<lparr>gluing_list = [[1, 4, 2, 3], [- 1, - 6, - 7, - 5], [5], [- 2], [6], [- 3], [7], [- 4]],
         branch_endpoint_table = ([1, 1, 1, 1, 2, 3, 4], [- 1, - 2, - 3, - 4, - 1, - 1, - 1]),
         measure_table = Some [74, 2, 3, 13, 5, 6, 7]\<rparr>)"
  by code_simp

lemma doctest_general_twist_4:
  "unzip_fold_general_twist (right_annulus (Some [1, 2, 3, 13, 5, 6, 7])) 1 0 (- 1)
     = Some (Inr
        \<lparr>gluing_list = [[1, - 6, - 7, - 5], [- 1, 2, 3, 4], [5], [- 2], [6], [- 3], [7], [- 4]],
         branch_endpoint_table = ([1, - 1, - 1, - 1, 2, 3, 4], [- 1, - 2, - 3, - 4, 1, 1, 1]),
         measure_table = Some [4, 2, 3, 13, 5, 6, 7]\<rparr>)"
  by code_simp

lemma doctest_general_twist_5:
  "gluing_and_measure (unzip_fold_general_twist (right_annulus (Some [1, 2, 3, 13, 5, 6, 7]))
       1 (- 1) (- 1))
     = Some ([[1, - 6, - 7, - 5], [- 1, 3, 4, 2], [5], [- 2], [6], [- 3], [7], [- 4]],
             Some [6, 2, 3, 13, 5, 6, 7])"
  by code_simp

lemma doctest_pants_twist_1:
  "gluing_and_measure (unzip_fold_pants_twist (left_annulus (Some [1, 2, 3, 13, 5, 6, 7]))
       1 (- 1))
     = Some ([[1, 2, 3, 4], [- 1, - 5, - 6, - 7], [5], [- 2], [6], [- 3], [7], [- 4]],
             Some [19, 2, 3, 13, 5, 6, 7])"
  by code_simp

lemma doctest_pants_twist_2:
  "gluing_and_measure (unzip_fold_pants_twist (left_annulus (Some [100, 2, 3, 13, 5, 6, 7]))
       1 1)
     = Some ([[1, 2, 3, 4], [- 1, - 5, - 6, - 7], [5], [- 2], [6], [- 3], [7], [- 4]],
             Some [82, 2, 3, 13, 5, 6, 7])"
  by code_simp

lemma doctest_pants_twist_3:
  "gluing_and_measure (unzip_fold_pants_twist (left_annulus (Some [1, 2, 3, 13, 5, 6, 7]))
       1 1)
     = Some ([[- 5, - 6, - 7, 1], [2, 3, 4, - 1], [5], [- 2], [6], [- 3], [7], [- 4]],
             Some [17, 2, 3, 13, 5, 6, 7])"
  by code_simp

lemma doctest_pants_twist_4:
  "gluing_and_measure (unzip_fold_pants_twist (right_annulus (Some [1, 2, 3, 13, 5, 6, 7]))
       1 (- 1))
     = Some ([[1, - 5, - 6, - 7], [- 1, 2, 3, 4], [5], [- 2], [6], [- 3], [7], [- 4]],
             Some [17, 2, 3, 13, 5, 6, 7])"
  by code_simp

lemma doctest_pants_twist_5:
  "gluing_and_measure (unzip_fold_pants_twist (right_annulus (Some [1, 2, 3, 13, 5, 6, 7]))
       (- 1) (- 1))
     = Some ([[1, - 5, - 6, - 7], [- 1, 2, 3, 4], [5], [- 2], [6], [- 3], [7], [- 4]],
             Some [17, 2, 3, 13, 5, 6, 7])"
  by code_simp

lemma doctest_first_move_1:
  "gluing_and_measure (first_moves (genus2_23 [100, 20, 30, 1, 1, 4, 2, 2, 1])
       [(1, False)])
     = Some ([[1, 5, 6], [4, - 1, - 6], [- 5, - 4, 2], [- 8, - 7, - 2], [7, 9, 3], [- 9, 8, - 3]],
             Some [99, 20, 30, 1, 1, 5, 2, 2, 1])"
  by code_simp

lemma doctest_first_move_2:
  "gluing_and_measure (first_moves (genus2_23 [100, 20, 30, 1, 1, 4, 2, 2, 1])
       [(1, False), (- 3, False)])
     = Some ([[1, 5, 6], [4, - 1, - 6], [- 5, - 4, 2], [- 7, - 8, - 2], [9, 3, 7], [- 9, 8, - 3]],
             Some [99, 22, 28, 1, 1, 5, 2, 2, 3])"
  by code_simp

lemma doctest_first_move_3:
  "gluing_and_measure (first_moves (genus2_23 [100, 20, 30, 1, 1, 4, 2, 2, 1])
       [(1, False), (- 3, False), (- 3, True)])
     = Some ([[1, 5, 6], [4, - 1, - 6], [- 5, - 4, 2], [- 8, - 7, - 2], [7, 9, 3], [- 9, 8, - 3]],
             Some [99, 20, 30, 1, 1, 5, 2, 2, 1])"
  by code_simp

lemma doctest_first_move_4:
  "gluing_and_measure (first_moves (genus2_23 [100, 20, 30, 1, 1, 4, 2, 2, 1])
       [(1, False), (- 3, False), (- 3, True), (1, True)])
     = Some ([[1, 6, 5], [- 1, 4, - 6], [- 5, - 4, 2], [- 8, - 7, - 2], [7, 9, 3], [- 9, 8, - 3]],
             Some [100, 20, 30, 1, 1, 4, 2, 2, 1])"
  by code_simp

lemma doctest_first_move_5:
  "gluing_and_measure (first_moves (genus2_23 [3, 20, 3, 10, 10, 4, 15, 15, 1])
       [(1, False)])
     = Some ([[1, 6], [4, - 6], [- 1, - 5, - 4, 5, 2], [- 8, - 7, - 2], [7, 9, 3], [- 9, 8, - 3]],
             Some [3, 20, 3, 3, 7, 7, 15, 15, 1])"
  by code_simp

lemma doctest_first_move_6:
  "gluing_and_measure (first_moves (genus2_23 [3, 20, 3, 10, 10, 4, 15, 15, 1])
       [(1, False), (- 3, False)])
     = Some ([[1, 6], [4, - 6], [- 1, - 5, - 4, 5, 2], [- 3, 7, - 8, - 7, - 2], [9, 3], [- 9, 8]],
             Some [3, 23, 3, 3, 7, 7, 12, 3, 4])"
  by code_simp

lemma doctest_first_move_7:
  "gluing_and_measure (first_moves (genus2_11 [100, 20, 30, 1, 1, 4, 4, 4, 1])
       [(1, False)])
     = Some ([[1, 5, - 4], [- 6, - 1, 4], [2, - 8, 9, - 7, - 9], [- 2, - 5, 6], [7, 3], [8, - 3]],
             Some [99, 16, 30, 1, 5, 5, 4, 4, 1])"
  by code_simp

lemma doctest_first_move_8:
  "gluing_and_measure (first_moves (genus2_11 [100, 20, 30, 1, 1, 4, 4, 4, 1])
       [(1, False), (- 3, False)])
     = Some ([[1, 5, - 4], [- 6, - 1, 4], [2, - 9, - 8], [- 2, - 5, 6], [7, 3, 9], [- 7, 8, - 3]],
             Some [99, 11, 26, 1, 5, 5, 4, 5, 5])"
  by code_simp

lemma doctest_first_move_9:
  "gluing_and_measure (first_moves (genus2_11 [3, 20, 3, 10, 10, 13, 15, 15, 8])
       [(1, False)])
     = Some ([[1, - 4], [- 6, 4], [2, - 8, 9, - 7, - 9], [- 2, - 1, - 5, 6, 5], [7, 3], [8, - 3]],
             Some [16, 7, 3, 3, 7, 16, 15, 15, 8])"
  by code_simp

lemma doctest_first_move_10:
  "gluing_and_measure (first_moves (genus2_11 [3, 20, 3, 10, 10, 13, 15, 15, 8])
       [(1, False), (- 3, False)])
     = Some ([[1, - 4], [- 6, 4], [- 1, - 5, 6, 5, 2], [- 9, 7, - 8, - 7, - 2], [3, 9], [- 3, 8]],
             Some [16, 4, 3, 3, 7, 16, 12, 11, 11])"
  by code_simp

lemma doctest_pants_branch_on_switch:
  "map (pants_branch_on_switch
          (DehnThurstonTT [[10, 6, 5], [- 10, 4, - 6], [- 5, - 4, 2], [- 8, - 7, - 2],
                           [7, 9, 13], [- 9, 8, - 13]] None))
       [1, - 1, 2, - 2, 3, - 3]
     = [Inr 10, Inr 10, Inr 2, Inr 2, Inr 13, Inr 13]"
  by code_simp

end
